theory Spec2Isabelle
  imports Main
begin

section \<open>Text\<close>

text \<open>
  A Python \<^verbatim>\<open>str\<close> is a sequence of Unicode code points. It is modelled as a list of
  naturals, so that a \<^verbatim>\<open>\uXXXX\<close> escape of a JSON string has a value whatever its size.
  \<open>asc\<close> turns an Isabelle string literal into such a text.
\<close>

type_synonym ustr = "nat list"

definition asc :: "string \<Rightarrow> ustr" where
  "asc = map of_char"

definition dec_digit :: "nat \<Rightarrow> nat" where
  "dec_digit d = 48 + d"

function dec_nat :: "nat \<Rightarrow> ustr" where
  "dec_nat n = (if n < 10 then [dec_digit n] else dec_nat (n div 10) @ [dec_digit (n mod 10)])"
  by pat_completeness auto
termination
  by (relation "measure id") auto

definition dec_int :: "int \<Rightarrow> ustr" where
  "dec_int i = (if i < 0 then 45 # dec_nat (nat (- i)) else dec_nat (nat i))"

definition hex_digit :: "nat \<Rightarrow> nat" where
  "hex_digit d = (if d < 10 then 48 + d else 87 + d)"

fun hex_pad :: "nat \<Rightarrow> nat \<Rightarrow> ustr" where
  "hex_pad 0 n = []"
| "hex_pad (Suc w) n = hex_pad w (n div 16) @ [hex_digit (n mod 16)]"

section \<open>Values of the interpreter\<close>

text \<open>
  The values \<^verbatim>\<open>json.loads\<close> can return. A float keeps the text of the JSON number it was
  read from (or \<^verbatim>\<open>NaN\<close>, \<^verbatim>\<open>Infinity\<close>, \<^verbatim>\<open>-Infinity\<close>): floating point is not modelled, and
  the text the interpreter prints for it is a parameter of the runtime. A dict is an
  association list with distinct keys in insertion order; the keys of a decoded JSON
  object are always strings.
\<close>

datatype pyval =
    PNone
  | PBool bool
  | PInt int
  | PFloat ustr
  | PStr ustr
  | PList "pyval list"
  | PDict "(ustr \<times> pyval) list"

text \<open>
  \<^verbatim>\<open>d[k] = v\<close>: a key already present keeps its place and takes the new value, a new key
  goes to the end. \<open>py_dict\<close> is \<^verbatim>\<open>dict(pairs)\<close>.
\<close>

fun dict_set :: "ustr \<Rightarrow> 'v \<Rightarrow> (ustr \<times> 'v) list \<Rightarrow> (ustr \<times> 'v) list" where
  "dict_set k v [] = [(k, v)]"
| "dict_set k v ((k', v') # d) =
     (if k' = k then (k', v) # d else (k', v') # dict_set k v d)"

definition py_dict :: "(ustr \<times> 'v) list \<Rightarrow> (ustr \<times> 'v) list" where
  "py_dict pairs = foldl (\<lambda>d kv. dict_set (fst kv) (snd kv) d) [] pairs"

text \<open>
  What the interpreter and the platform decide and the program cannot see: the text of a
  float; which code points from 128 on count as printable (\<^verbatim>\<open>str.isprintable\<close>); the
  largest number of digits an integer may have when it is read from a string
  (\<^verbatim>\<open>sys.get_int_max_str_digits()\<close>, 4300 by default, 0 for no limit); how deep the decoder
  may nest before the interpreter raises \<^verbatim>\<open>RecursionError\<close>; and which code points the
  encoding of a text file has (with UTF-8, all but the surrogates).
\<close>

record runtime =
  float_repr :: "ustr \<Rightarrow> ustr"
  isprintable :: "nat \<Rightarrow> bool"
  int_max_str_digits :: nat
  recursion_limit :: nat
  encodable :: "nat \<Rightarrow> bool"

text \<open>
  \<^verbatim>\<open>repr\<close> of a string: single quotes, unless the string has a single quote and no double
  quote; the quote and the backslash are escaped, tab, newline and carriage return are
  written \<^verbatim>\<open>\t \n \r\<close>, the other control characters and the unprintable code points as
  \<^verbatim>\<open>\xhh\<close>, \<^verbatim>\<open>\uhhhh\<close> or \<^verbatim>\<open>\Uhhhhhhhh\<close>.
\<close>

definition repr_char :: "runtime \<Rightarrow> nat \<Rightarrow> nat \<Rightarrow> ustr" where
  "repr_char rt quote ch =
     (if ch = quote \<or> ch = 0x5C then [0x5C, ch]
      else if ch = 0x09 then [0x5C, 0x74]
      else if ch = 0x0A then [0x5C, 0x6E]
      else if ch = 0x0D then [0x5C, 0x72]
      else if ch < 0x20 \<or> ch = 0x7F then [0x5C, 0x78] @ hex_pad 2 ch
      else if ch < 0x7F then [ch]
      else if isprintable rt ch then [ch]
      else if ch \<le> 0xFF then [0x5C, 0x78] @ hex_pad 2 ch
      else if ch \<le> 0xFFFF then [0x5C, 0x75] @ hex_pad 4 ch
      else [0x5C, 0x55] @ hex_pad 8 ch)"

definition repr_str :: "runtime \<Rightarrow> ustr \<Rightarrow> ustr" where
  "repr_str rt s =
     (let quote = (if 0x27 \<in> set s \<and> 0x22 \<notin> set s then 0x22 else 0x27)
      in [quote] @ concat (map (repr_char rt quote) s) @ [quote])"

text \<open>\<^verbatim>\<open>', '.join(parts)\<close>.\<close>

fun join_comma :: "ustr list \<Rightarrow> ustr" where
  "join_comma [] = []"
| "join_comma [x] = x"
| "join_comma (x # y # ys) = x @ [0x2C, 0x20] @ join_comma (y # ys)"

fun py_repr :: "runtime \<Rightarrow> pyval \<Rightarrow> ustr" where
  "py_repr rt PNone = asc ''None''"
| "py_repr rt (PBool b) = (if b then asc ''True'' else asc ''False'')"
| "py_repr rt (PInt i) = dec_int i"
| "py_repr rt (PFloat lexeme) = float_repr rt lexeme"
| "py_repr rt (PStr s) = repr_str rt s"
| "py_repr rt (PList xs) = [0x5B] @ join_comma (map (py_repr rt) xs) @ [0x5D]"
| "py_repr rt (PDict d) =
     [0x7B] @ join_comma (map (\<lambda>kv. repr_str rt (fst kv) @ [0x3A, 0x20] @ py_repr rt (snd kv)) d)
       @ [0x7D]"

text \<open>
  \<^verbatim>\<open>str(v)\<close>, which is what an f-string puts for \<^verbatim>\<open>{v}\<close>: the string itself for a
  string, \<^verbatim>\<open>repr(v)\<close> for every other value here.
\<close>

fun py_str :: "runtime \<Rightarrow> pyval \<Rightarrow> ustr" where
  "py_str rt (PStr s) = s"
| "py_str rt v = py_repr rt v"

section \<open>Errors\<close>

text \<open>
  The exceptions a run can end with. The program defines none of its own: these are the
  ones of the SDK (\<open>ClientError\<close> carries the error code of the store's answer, such as
  \<^verbatim>\<open>ParameterNotFound\<close> or \<^verbatim>\<open>AccessDeniedException\<close>; \<open>BotoCoreError\<close> names every other
  failure of the SDK, such as missing credentials) and of the interpreter.
\<close>

datatype error =
    ClientError ustr
  | BotoCoreError ustr
  | KeyError ustr
  | TypeError
  | JSONDecodeError
  | ValueError
  | RecursionError
  | AttributeError
  | OSError ustr
  | UnicodeEncodeError

section \<open>The JSON decoder\<close>

text \<open>
  \<^verbatim>\<open>json.loads\<close> of the standard library, with its default arguments, on a string. The
  decoder reads a JSON value between optional whitespace; it is strict about control
  characters in strings, and it accepts \<^verbatim>\<open>NaN\<close>, \<^verbatim>\<open>Infinity\<close> and \<^verbatim>\<open>-Infinity\<close>. A
  failure of the syntax is a \<open>JSONDecodeError\<close> (the message is not modelled). Two
  limits of the interpreter apply as well: an object or array nested deeper than the
  interpreter allows is a \<open>RecursionError\<close>, and an integer with more digits than the
  interpreter converts is a \<open>ValueError\<close>.

  The decoder is written in two stages. \<open>json_parse\<close> reads the syntax and keeps the
  members of an object as the list of pairs in the order of the JSON text, repeated keys
  included; \<open>to_py\<close> then builds the dicts, inserting the pairs in that order, which is
  what the decoder does as it goes.
\<close>

datatype jtree =
    JNull
  | JBool bool
  | JInt int
  | JFloat ustr
  | JString ustr
  | JArray "jtree list"
  | JObject "(ustr \<times> jtree) list"

definition is_ws :: "nat \<Rightarrow> bool" where
  "is_ws c \<longleftrightarrow> c = 0x20 \<or> c = 0x09 \<or> c = 0x0A \<or> c = 0x0D"

definition skip_ws :: "ustr \<Rightarrow> ustr" where
  "skip_ws s = dropWhile is_ws s"

definition is_digit :: "nat \<Rightarrow> bool" where
  "is_digit c \<longleftrightarrow> 0x30 \<le> c \<and> c \<le> 0x39"

definition hex_val :: "nat \<Rightarrow> nat option" where
  "hex_val c =
     (if 0x30 \<le> c \<and> c \<le> 0x39 then Some (c - 0x30)
      else if 0x61 \<le> c \<and> c \<le> 0x66 then Some (c - 0x61 + 10)
      else if 0x41 \<le> c \<and> c \<le> 0x46 then Some (c - 0x41 + 10)
      else None)"

fun hex4 :: "ustr \<Rightarrow> nat option" where
  "hex4 (a # b # c # d # _) =
     (case (hex_val a, hex_val b, hex_val c, hex_val d) of
        (Some x, Some y, Some z, Some w) \<Rightarrow> Some (((x * 16 + y) * 16 + z) * 16 + w)
      | _ \<Rightarrow> None)"
| "hex4 _ = None"

definition unescape :: "nat \<Rightarrow> nat option" where
  "unescape e =
     (if e = 0x22 \<or> e = 0x5C \<or> e = 0x2F then Some e
      else if e = 0x62 then Some 0x08
      else if e = 0x66 then Some 0x0C
      else if e = 0x6E then Some 0x0A
      else if e = 0x72 then Some 0x0D
      else if e = 0x74 then Some 0x09
      else None)"

definition is_high_surrogate :: "nat \<Rightarrow> bool" where
  "is_high_surrogate u \<longleftrightarrow> 0xD800 \<le> u \<and> u \<le> 0xDBFF"

definition is_low_surrogate :: "nat \<Rightarrow> bool" where
  "is_low_surrogate u \<longleftrightarrow> 0xDC00 \<le> u \<and> u \<le> 0xDFFF"

definition join_surrogates :: "nat \<Rightarrow> nat \<Rightarrow> nat" where
  "join_surrogates hi lo = 0x10000 + ((hi - 0xD800) * 0x400 + (lo - 0xDC00))"

text \<open>
  The body of a string, after its opening quote: the decoded string and what follows
  the closing quote. \<open>acc\<close> holds the code points read so far, last first.
\<close>

function scanstring :: "ustr \<Rightarrow> ustr \<Rightarrow> error + ustr \<times> ustr" where
  "scanstring acc [] = Inl JSONDecodeError"
| "scanstring acc (c # cs) =
     (if c = 0x22 then Inr (rev acc, cs)
      else if c = 0x5C then
        (case cs of
           [] \<Rightarrow> Inl JSONDecodeError
         | e # cs' \<Rightarrow>
             if e = 0x75 then
               (case hex4 cs' of
                  None \<Rightarrow> Inl JSONDecodeError
                | Some u \<Rightarrow>
                    if is_high_surrogate u \<and> take 2 (drop 4 cs') = [0x5C, 0x75] then
                      (case hex4 (drop 6 cs') of
                         None \<Rightarrow> Inl JSONDecodeError
                       | Some u2 \<Rightarrow>
                           if is_low_surrogate u2
                           then scanstring (join_surrogates u u2 # acc) (drop 10 cs')
                           else scanstring (u # acc) (drop 4 cs'))
                    else scanstring (u # acc) (drop 4 cs'))
             else
               (case unescape e of
                  None \<Rightarrow> Inl JSONDecodeError
                | Some ch \<Rightarrow> scanstring (ch # acc) cs'))
      else if c < 0x20 then Inl JSONDecodeError
      else scanstring (c # acc) cs)"
  by pat_completeness auto
termination
  by (relation "measure (\<lambda>(acc, s). length s)") auto

text \<open>The value of a run of decimal digits.\<close>

definition digits_val :: "ustr \<Rightarrow> nat" where
  "digits_val ds = foldl (\<lambda>a d. 10 * a + (d - 0x30)) 0 ds"

text \<open>
  A number at the head of the input: an optional minus, \<^verbatim>\<open>0\<close> or a digit run that does
  not start with \<^verbatim>\<open>0\<close>, then a fraction (a point and at least one digit) and an exponent
  (\<^verbatim>\<open>e\<close> or \<^verbatim>\<open>E\<close>, an optional sign, at least one digit), each taken only when complete.
  With neither it is an integer, otherwise a float.
\<close>

definition scan_frac :: "ustr \<Rightarrow> ustr \<times> ustr" where
  "scan_frac s =
     (case s of
        a # b # r \<Rightarrow>
          if a = 0x2E \<and> is_digit b
          then (a # b # takeWhile is_digit r, dropWhile is_digit r)
          else ([], s)
      | _ \<Rightarrow> ([], s))"

definition scan_sign :: "ustr \<Rightarrow> ustr \<times> ustr" where
  "scan_sign s =
     (case s of
        [] \<Rightarrow> ([], s)
      | g # r \<Rightarrow> if g = 0x2B \<or> g = 0x2D then ([g], r) else ([], s))"

definition scan_exp :: "ustr \<Rightarrow> ustr \<times> ustr" where
  "scan_exp s =
     (case s of
        [] \<Rightarrow> ([], s)
      | e # r \<Rightarrow>
          if e = 0x65 \<or> e = 0x45 then
            (let (sign, r1) = scan_sign r
             in if takeWhile is_digit r1 \<noteq> []
                then (e # sign @ takeWhile is_digit r1, dropWhile is_digit r1)
                else ([], s))
          else ([], s))"

definition number_tail :: "bool \<Rightarrow> ustr \<Rightarrow> ustr \<Rightarrow> jtree \<times> ustr" where
  "number_tail neg ip s2 =
     (let (frac, s3) = scan_frac s2;
          (ex, s4) = scan_exp s3
      in if frac = [] \<and> ex = []
         then (JInt (if neg then - int (digits_val ip) else int (digits_val ip)), s4)
         else (JFloat ((if neg then [0x2D] else []) @ ip @ frac @ ex), s4))"

definition match_digits :: "bool \<Rightarrow> ustr \<Rightarrow> (jtree \<times> ustr) option" where
  "match_digits neg s =
     (case s of
        [] \<Rightarrow> None
      | d # r \<Rightarrow>
          if 0x31 \<le> d \<and> d \<le> 0x39
          then Some (number_tail neg (d # takeWhile is_digit r) (dropWhile is_digit r))
          else if d = 0x30 then Some (number_tail neg [d] r)
          else None)"

definition match_number :: "ustr \<Rightarrow> (jtree \<times> ustr) option" where
  "match_number s =
     (case s of
        [] \<Rightarrow> None
      | c # cs \<Rightarrow> if c = 0x2D then match_digits True cs else match_digits False s)"

text \<open>The words the decoder knows, tried where no string, object, array or number starts.\<close>

definition match_word :: "ustr \<Rightarrow> (jtree \<times> ustr) option" where
  "match_word s =
     (if take 4 s = asc ''null'' then Some (JNull, drop 4 s)
      else if take 4 s = asc ''true'' then Some (JBool True, drop 4 s)
      else if take 5 s = asc ''false'' then Some (JBool False, drop 5 s)
      else if take 3 s = asc ''NaN'' then Some (JFloat (asc ''NaN''), drop 3 s)
      else if take 8 s = asc ''Infinity'' then Some (JFloat (asc ''Infinity''), drop 8 s)
      else if take 9 s = asc ''-Infinity'' then Some (JFloat (asc ''-Infinity''), drop 9 s)
      else None)"

text \<open>
  A member's key: the input must start with the quote of a string; then whitespace, a
  colon and whitespace. The result is the key and the input at the member's value.
\<close>

definition scan_key :: "ustr \<Rightarrow> error + ustr \<times> ustr" where
  "scan_key s =
     (case s of
        [] \<Rightarrow> Inl JSONDecodeError
      | q # r \<Rightarrow>
          if q \<noteq> 0x22 then Inl JSONDecodeError
          else
            (case scanstring [] r of
               Inl e \<Rightarrow> Inl e
             | Inr (k, r1) \<Rightarrow>
                 (case skip_ws r1 of
                    [] \<Rightarrow> Inl JSONDecodeError
                  | c # r2 \<Rightarrow> if c = 0x3A then Inr (k, skip_ws r2) else Inl JSONDecodeError)))"

text \<open>
  None of the scanners gives back more input than it was given: the decoder below ends.
\<close>

lemma skip_ws_length: "length (skip_ws s) \<le> length s"
  by (simp add: skip_ws_def length_dropWhile_le)

lemma scanstring_length: "scanstring acc s = Inr (x, r) \<Longrightarrow> length r < length s"
proof (induction acc s rule: scanstring.induct)
  case (1 acc)
  then show ?case by simp
next
  case (2 acc c cs)
  show ?case
  proof (cases "c = 0x22")
    case True
    with "2.prems" show ?thesis by simp
  next
    case nq: False
    show ?thesis
    proof (cases "c = 0x5C")
      case False
      with nq "2.prems" have "scanstring (c # acc) cs = Inr (x, r)" "\<not> c < 0x20"
        by (simp_all split: if_splits)
      with "2.IH" nq False have "length r < length cs" by simp
      then show ?thesis by simp
    next
      case bs: True
      show ?thesis
      proof (cases cs)
        case Nil
        with nq bs "2.prems" show ?thesis by simp
      next
        case (Cons e cs')
        show ?thesis
        proof (cases "e = 0x75")
          case False
          with nq bs Cons "2.prems" obtain ch where ch: "unescape e = Some ch"
            "scanstring (ch # acc) cs' = Inr (x, r)"
            by (simp split: option.splits)
          with "2.IH" nq bs Cons False have "length r < length cs'" by simp
          with Cons show ?thesis by simp
        next
          case u: True
          with nq bs Cons "2.prems" obtain uu where uu: "hex4 cs' = Some uu"
            by (simp split: option.splits)
          show ?thesis
          proof (cases "is_high_surrogate uu \<and> take 2 (drop 4 cs') = [0x5C, 0x75]")
            case False
            with nq bs Cons u uu "2.prems" have "scanstring (uu # acc) (drop 4 cs') = Inr (x, r)"
              by simp
            with "2.IH" nq bs Cons u uu False have "length r < length (drop 4 cs')" by simp
            with Cons show ?thesis by simp
          next
            case pair: True
            with nq bs Cons u uu "2.prems" obtain u2 where u2: "hex4 (drop 6 cs') = Some u2"
              by (simp split: option.splits)
            show ?thesis
            proof (cases "is_low_surrogate u2")
              case True
              with nq bs Cons u uu pair u2 "2.prems"
              have "scanstring (join_surrogates uu u2 # acc) (drop 10 cs') = Inr (x, r)"
                by simp
              with "2.IH" nq bs Cons u uu pair u2 True have "length r < length (drop 10 cs')"
                by simp
              with Cons show ?thesis by simp
            next
              case False
              with nq bs Cons u uu pair u2 "2.prems"
              have "scanstring (uu # acc) (drop 4 cs') = Inr (x, r)"
                by simp
              with "2.IH" nq bs Cons u uu pair u2 False have "length r < length (drop 4 cs')"
                by simp
              with Cons show ?thesis by simp
            qed
          qed
        qed
      qed
    qed
  qed
qed

lemma dropWhile_digit_length: "length (dropWhile is_digit xs) \<le> length xs"
  by (rule length_dropWhile_le)

lemma scan_frac_length: "length (snd (scan_frac s)) \<le> length s"
proof -
  have "\<And>xs. length (dropWhile is_digit xs) \<le> Suc (Suc (length xs))"
    by (rule le_SucI, rule le_SucI, rule dropWhile_digit_length)
  then show ?thesis
    by (auto simp: scan_frac_def split: list.splits)
qed

lemma scan_sign_length: "length (snd (scan_sign s)) \<le> length s"
  by (auto simp: scan_sign_def split: list.splits)

lemma scan_exp_length: "length (snd (scan_exp s)) \<le> length s"
proof (cases s)
  case Nil
  then show ?thesis by (simp add: scan_exp_def)
next
  case (Cons e r)
  obtain sign r1 where sg: "scan_sign r = (sign, r1)"
    by (cases "scan_sign r")
  have "length (dropWhile is_digit r1) \<le> length r1"
    by (rule dropWhile_digit_length)
  also have "\<dots> \<le> length r"
    using scan_sign_length [of r] sg by simp
  finally have "length (dropWhile is_digit r1) \<le> Suc (length r)"
    by simp
  with Cons sg show ?thesis
    by (simp add: scan_exp_def)
qed

lemma number_tail_length: "length (snd (number_tail neg ip s2)) \<le> length s2"
proof -
  obtain frac s3 where f: "scan_frac s2 = (frac, s3)"
    by (cases "scan_frac s2")
  obtain ex s4 where e: "scan_exp s3 = (ex, s4)"
    by (cases "scan_exp s3")
  have "length s4 \<le> length s3"
    using scan_exp_length [of s3] e by simp
  also have "\<dots> \<le> length s2"
    using scan_frac_length [of s2] f by simp
  finally show ?thesis
    using f e by (simp add: number_tail_def)
qed

lemma match_digits_length:
  assumes "match_digits neg s = Some (v, r)"
  shows "length r < length s"
proof (cases s)
  case Nil
  with assms show ?thesis by (simp add: match_digits_def)
next
  case (Cons d cs)
  have a: "length (snd (number_tail neg (d # takeWhile is_digit cs) (dropWhile is_digit cs)))
      \<le> length cs"
    using number_tail_length dropWhile_digit_length le_trans by blast
  have b: "length (snd (number_tail neg [d] cs)) \<le> length cs"
    by (rule number_tail_length)
  show ?thesis
  proof (cases "0x31 \<le> d \<and> d \<le> 0x39")
    case True
    with assms Cons
    have "r = snd (number_tail neg (d # takeWhile is_digit cs) (dropWhile is_digit cs))"
      by (simp add: match_digits_def)
    with a Cons show ?thesis by simp
  next
    case False
    with assms Cons have "r = snd (number_tail neg [d] cs)"
      by (simp add: match_digits_def split: if_splits)
    with b Cons show ?thesis by simp
  qed
qed

lemma match_number_length:
  assumes "match_number s = Some (v, r)"
  shows "length r < length s"
proof (cases s)
  case Nil
  with assms show ?thesis by (simp add: match_number_def)
next
  case (Cons c cs)
  show ?thesis
  proof (cases "c = 0x2D")
    case True
    with assms Cons have "match_digits True cs = Some (v, r)"
      by (simp add: match_number_def)
    then have "length r < length cs" by (rule match_digits_length)
    with Cons show ?thesis by simp
  next
    case False
    with assms Cons have "match_digits False s = Some (v, r)"
      by (simp add: match_number_def)
    then show ?thesis by (rule match_digits_length)
  qed
qed

datatype frame =
    InArray "jtree list"
  | InObject "(ustr \<times> jtree) list" ustr

datatype pstate =
    AtValue "frame list" ustr
  | AfterValue jtree "frame list" ustr
  | Done "error + jtree \<times> ustr"

definition scan_value :: "frame list \<Rightarrow> ustr \<Rightarrow> pstate" where
  "scan_value st s =
     (case s of
        [] \<Rightarrow> Done (Inl JSONDecodeError)
      | c # cs \<Rightarrow>
          if c = 0x22 then
            (case scanstring [] cs of
               Inl e \<Rightarrow> Done (Inl e)
             | Inr (str, r) \<Rightarrow> AfterValue (JString str) st r)
          else if c = 0x7B then
            (case skip_ws cs of
               [] \<Rightarrow> Done (Inl JSONDecodeError)
             | c1 # r1 \<Rightarrow>
                 if c1 = 0x7D then AfterValue (JObject []) st r1
                 else
                   (case scan_key (c1 # r1) of
                      Inl e \<Rightarrow> Done (Inl e)
                    | Inr (k, r2) \<Rightarrow> AtValue (InObject [] k # st) r2))
          else if c = 0x5B then
            (case skip_ws cs of
               [] \<Rightarrow> Done (Inl JSONDecodeError)
             | c1 # r1 \<Rightarrow>
                 if c1 = 0x5D then AfterValue (JArray []) st r1
                 else AtValue (InArray [] # st) (c1 # r1))
          else
            (case match_word s of
               Some (v, r) \<Rightarrow> AfterValue v st r
             | None \<Rightarrow>
                 (case match_number s of
                    Some (v, r) \<Rightarrow> AfterValue v st r
                  | None \<Rightarrow> Done (Inl JSONDecodeError))))"

text \<open>
  The two limits, checked where a value starts: an object or an array may be entered only
  while fewer than \<open>recursion_limit\<close> of them are open, and an integer literal may have at
  most \<open>int_max_str_digits\<close> digits (when that is not 0).
\<close>

definition opens_container :: "ustr \<Rightarrow> bool" where
  "opens_container s \<longleftrightarrow> (case s of [] \<Rightarrow> False | c # _ \<Rightarrow> c = 0x7B \<or> c = 0x5B)"

definition int_digits :: "ustr \<Rightarrow> nat" where
  "int_digits s =
     (case match_number s of
        Some (JInt i, r) \<Rightarrow>
          length s - length r - (case s of [] \<Rightarrow> 0 | c # _ \<Rightarrow> if c = 0x2D then 1 else 0)
      | _ \<Rightarrow> 0)"

definition at_value :: "runtime \<Rightarrow> frame list \<Rightarrow> ustr \<Rightarrow> pstate" where
  "at_value r st s =
     (if opens_container s \<and> recursion_limit r \<le> length st then Done (Inl RecursionError)
      else if int_max_str_digits r \<noteq> 0 \<and> int_max_str_digits r < int_digits s
      then Done (Inl ValueError)
      else scan_value st s)"

fun after_value :: "jtree \<Rightarrow> frame list \<Rightarrow> ustr \<Rightarrow> pstate" where
  "after_value v [] s = Done (Inr (v, s))"
| "after_value v (InArray acc # st) s =
     (case skip_ws s of
        [] \<Rightarrow> Done (Inl JSONDecodeError)
      | c # r \<Rightarrow>
          if c = 0x5D then AfterValue (JArray (rev (v # acc))) st r
          else if c = 0x2C then AtValue (InArray (v # acc) # st) (skip_ws r)
          else Done (Inl JSONDecodeError))"
| "after_value v (InObject acc k # st) s =
     (case skip_ws s of
        [] \<Rightarrow> Done (Inl JSONDecodeError)
      | c # r \<Rightarrow>
          if c = 0x7D then AfterValue (JObject (rev ((k, v) # acc))) st r
          else if c = 0x2C then
            (case scan_key (skip_ws r) of
               Inl e \<Rightarrow> Done (Inl e)
             | Inr (k', r') \<Rightarrow> AtValue (InObject ((k, v) # acc) k' # st) r')
          else Done (Inl JSONDecodeError))"

fun todo :: "pstate \<Rightarrow> nat" where
  "todo (AtValue st s) = 2 * length s + 2"
| "todo (AfterValue v st s) = 2 * length s + 1"
| "todo (Done res) = 0"

lemma scan_key_length:
  assumes "scan_key s = Inr (k, r)"
  shows "length r < length s"
proof (cases s)
  case Nil
  with assms show ?thesis by (simp add: scan_key_def)
next
  case (Cons q s1)
  show ?thesis
  proof (cases "scanstring [] s1")
    case (Inl e)
    with assms Cons show ?thesis by (simp add: scan_key_def split: if_splits)
  next
    case (Inr p)
    obtain k1 r1 where p: "p = (k1, r1)" by (cases p)
    show ?thesis
    proof (cases "skip_ws r1")
      case Nil
      with assms Cons Inr p show ?thesis by (simp add: scan_key_def split: if_splits)
    next
      case (Cons c r2)
      with assms \<open>s = q # s1\<close> Inr p have r: "r = skip_ws r2"
        by (simp add: scan_key_def split: if_splits)
      have "length r \<le> length r2" using r skip_ws_length by simp
      also have "\<dots> < length (skip_ws r1)" using Cons by simp
      also have "\<dots> \<le> length r1" by (rule skip_ws_length)
      also have "\<dots> < length s1" using Inr p scanstring_length by blast
      finally show ?thesis using \<open>s = q # s1\<close> by simp
    qed
  qed
qed

lemma match_word_length: "match_word s = Some (v, r) \<Longrightarrow> length r \<le> length s"
  by (auto simp: match_word_def split: if_splits)

lemma skip_ws_Cons_length: "skip_ws s = c # r \<Longrightarrow> length r < length s"
  using skip_ws_length [of s] by simp

lemma scan_value_todo: "todo (scan_value st s) < 2 * length s + 2"
proof (cases s)
  case Nil
  then show ?thesis by (simp add: scan_value_def)
next
  case (Cons c cs)
  consider (str) "c = 0x22" | (obj) "c \<noteq> 0x22" "c = 0x7B"
    | (arr) "c \<noteq> 0x22" "c \<noteq> 0x7B" "c = 0x5B"
    | (other) "c \<noteq> 0x22" "c \<noteq> 0x7B" "c \<noteq> 0x5B"
    by blast
  then show ?thesis
  proof cases
    case str
    show ?thesis
    proof (cases "scanstring [] cs")
      case (Inl e)
      with Cons str show ?thesis by (simp add: scan_value_def)
    next
      case (Inr p)
      obtain x r where p: "p = (x, r)" by (cases p)
      with Inr have "length r < length cs" using scanstring_length by blast
      with Cons str Inr p show ?thesis by (simp add: scan_value_def)
    qed
  next
    case obj
    show ?thesis
    proof (cases "skip_ws cs")
      case Nil
      with Cons obj show ?thesis by (simp add: scan_value_def)
    next
      case ws: (Cons c1 r1)
      then have r1: "length r1 < length cs" by (rule skip_ws_Cons_length)
      show ?thesis
      proof (cases "c1 = 0x7D")
        case True
        with Cons obj ws r1 show ?thesis by (simp add: scan_value_def)
      next
        case False
        show ?thesis
        proof (cases "scan_key (c1 # r1)")
          case (Inl e)
          with Cons obj ws False show ?thesis by (simp add: scan_value_def)
        next
          case (Inr p)
          obtain k r2 where p: "p = (k, r2)" by (cases p)
          with Inr have "length r2 < length (c1 # r1)" using scan_key_length by blast
          with r1 have "length r2 < length cs" by simp
          with Cons obj ws False Inr p show ?thesis by (simp add: scan_value_def)
        qed
      qed
    qed
  next
    case arr
    show ?thesis
    proof (cases "skip_ws cs")
      case Nil
      with Cons arr show ?thesis by (simp add: scan_value_def)
    next
      case ws: (Cons c1 r1)
      then have r1: "length r1 < length cs" by (rule skip_ws_Cons_length)
      with Cons arr ws show ?thesis by (simp add: scan_value_def)
    qed
  next
    case other
    show ?thesis
    proof (cases "match_word (c # cs)")
      case None
      show ?thesis
      proof (cases "match_number (c # cs)")
        case None
        with Cons other \<open>match_word (c # cs) = None\<close> show ?thesis
          by (simp add: scan_value_def)
      next
        case (Some p)
        obtain v r where p: "p = (v, r)" by (cases p)
        with Some have "length r < length (c # cs)" using match_number_length by blast
        with Cons other \<open>match_word (c # cs) = None\<close> Some p show ?thesis
          by (simp add: scan_value_def)
      qed
    next
      case (Some p)
      obtain v r where p: "p = (v, r)" by (cases p)
      with Some have "length r \<le> length (c # cs)" using match_word_length by blast
      with Cons other Some p show ?thesis by (simp add: scan_value_def)
    qed
  qed
qed

lemma at_value_todo: "todo (at_value r st s) < 2 * length s + 2"
  using scan_value_todo [of st s] by (simp add: at_value_def)

lemma after_value_todo: "todo (after_value v st s) < 2 * length s + 1"
proof (cases st)
  case Nil
  then show ?thesis by simp
next
  case (Cons f st')
  show ?thesis
  proof (cases "skip_ws s")
    case Nil
    with Cons show ?thesis by (cases f) simp_all
  next
    case ws: (Cons c r)
    then have r: "length r < length s" by (rule skip_ws_Cons_length)
    have r': "length (skip_ws r) < length s"
      using r skip_ws_length [of r] by simp
    show ?thesis
    proof (cases f)
      case (InArray acc)
      with Cons ws r r' show ?thesis by simp
    next
      case (InObject acc k)
      show ?thesis
      proof (cases "scan_key (skip_ws r)")
        case (Inl e)
        with Cons ws r InObject show ?thesis by simp
      next
        case (Inr p)
        obtain k' r2 where p: "p = (k', r2)" by (cases p)
        with Inr have "length r2 < length (skip_ws r)" using scan_key_length by blast
        with r' have "length r2 < length s" by simp
        with Cons ws r InObject Inr p show ?thesis by simp
      qed
    qed
  qed
qed

function run :: "runtime \<Rightarrow> pstate \<Rightarrow> error + jtree \<times> ustr" where
  "run r (Done res) = res"
| "run r (AtValue st s) = run r (at_value r st s)"
| "run r (AfterValue v st s) = run r (after_value v st s)"
  by pat_completeness auto
termination
proof (relation "measure (\<lambda>(r, p). todo p)", goal_cases)
  case 1
  then show ?case by simp
next
  case (2 r st s)
  then show ?case using at_value_todo [of r st s] by simp
next
  case (3 r v st s)
  then show ?case using after_value_todo [of v st s] by simp
qed

definition json_parse :: "runtime \<Rightarrow> ustr \<Rightarrow> error + jtree" where
  "json_parse r s =
     (case run r (AtValue [] (skip_ws s)) of
        Inl e \<Rightarrow> Inl e
      | Inr (v, rest) \<Rightarrow> if skip_ws rest = [] then Inr v else Inl JSONDecodeError)"

text \<open>Building the values: each object becomes the dict of its members, in order.\<close>

fun to_py :: "jtree \<Rightarrow> pyval" where
  "to_py JNull = PNone"
| "to_py (JBool b) = PBool b"
| "to_py (JInt i) = PInt i"
| "to_py (JFloat lexeme) = PFloat lexeme"
| "to_py (JString s) = PStr s"
| "to_py (JArray xs) = PList (map to_py xs)"
| "to_py (JObject ms) = PDict (py_dict (map (\<lambda>m. (fst m, to_py (snd m))) ms))"

text \<open>
  \<^verbatim>\<open>json.loads(x)\<close>: a \<open>TypeError\<close> when \<open>x\<close> is not a string (bytes are not among the
  values modelled).
\<close>

definition json_loads :: "runtime \<Rightarrow> pyval \<Rightarrow> error + pyval" where
  "json_loads r x =
     (case x of
        PStr s \<Rightarrow> (case json_parse r s of Inl e \<Rightarrow> Inl e | Inr t \<Rightarrow> Inr (to_py t))
      | _ \<Rightarrow> Inl TypeError)"

section \<open>The world of a run\<close>

text \<open>
  What a run can change and what it can be observed to do: the content of the file
  \<^verbatim>\<open>.env\<close> of the working directory (\<open>None\<close> when there is no such file) and the calls made
  to the SDK and to the file system, in order. The content is the text handed to
  \<^verbatim>\<open>write\<close>: buffering and the newline convention of the platform are not modelled.
\<close>

datatype call =
    NewSession
  | NewClient ustr
  | GetParameter ustr
  | OpenFile ustr ustr
  | WriteFile ustr
  | CloseFile

record world =
  dotenv :: "ustr option"
  calls :: "call list"

definition did :: "call \<Rightarrow> world \<Rightarrow> world" where
  "did c w = w\<lparr>calls := calls w @ [c]\<rparr>"

text \<open>
  A parameter as the store answers a \<^verbatim>\<open>GetParameter\<close> request. The value is the field
  \<^verbatim>\<open>Value\<close>. The other fields of the answer that are left out here (the date of the last
  change, the selector, the source) are read by nothing in the program.
\<close>

record parameter =
  par_name :: ustr
  par_type :: ustr
  par_value :: ustr
  par_version :: int
  par_arn :: ustr
  par_datatype :: ustr

text \<open>
  What the surroundings answer during one run. The SDK, the store and the file system are
  not part of the program: whether the session and the client can be made, what the store
  answers for a name (an error, or the parameter), the metadata the SDK adds to a
  response, whether the file can be opened, whether the \<open>i\<close>-th write of a given text goes
  through, and whether the file can be closed (closing flushes what was written) are
  parameters.
\<close>

record env =
  rt :: runtime
  session_error :: "error option"
  client_error :: "error option"
  store :: "ustr \<Rightarrow> error + parameter"
  metadata :: pyval
  open_error :: "error option"
  write_error :: "nat \<Rightarrow> ustr \<Rightarrow> error option"
  close_error :: "error option"

text \<open>
  The response of \<^verbatim>\<open>client.get_parameter(Name=...)\<close> as the SDK builds it: a dict with the
  two keys \<^verbatim>\<open>Parameter\<close> and \<^verbatim>\<open>ResponseMetadata\<close>; the parameter's fields are inside the
  first. A refusal of the store, or any other failure of the call, is raised as an error.
\<close>

definition sdk_response :: "parameter \<Rightarrow> pyval \<Rightarrow> (ustr \<rightharpoonup> pyval)" where
  "sdk_response par meta =
     [asc ''Parameter'' \<mapsto>
        PDict [(asc ''Name'', PStr (par_name par)),
               (asc ''Type'', PStr (par_type par)),
               (asc ''Value'', PStr (par_value par)),
               (asc ''Version'', PInt (par_version par)),
               (asc ''ARN'', PStr (par_arn par)),
               (asc ''DataType'', PStr (par_datatype par))],
      asc ''ResponseMetadata'' \<mapsto> meta]"

definition get_parameter :: "env \<Rightarrow> ustr \<Rightarrow> error + (ustr \<rightharpoonup> pyval)" where
  "get_parameter e name =
     (case store e name of
        Inl err \<Rightarrow> Inl err
      | Inr par \<Rightarrow> Inr (sdk_response par (metadata e)))"

section \<open>The exporter\<close>

text \<open>
  \<^verbatim>\<open>
  def savessm(param_name: str):
      session = boto3.Session()
      client = session.client('ssm')
      parameter_value = client.get_parameter(Name=param_name)['ParameterValue']
      vars = json.loads(parameter_value)
      with open(".env", "w") as f:
          for key, value in vars.items():
              f.write(f"{key}={value}\n")
  \<close>
\<close>

text \<open>\<^verbatim>\<open>vars.items()\<close>: only a dict has the method.\<close>

definition items :: "pyval \<Rightarrow> error + (ustr \<times> pyval) list" where
  "items v = (case v of PDict d \<Rightarrow> Inr d | _ \<Rightarrow> Inl AttributeError)"

text \<open>\<^verbatim>\<open>f"{key}={value}\n"\<close>, for a key that is a string.\<close>

definition env_line :: "runtime \<Rightarrow> ustr \<Rightarrow> pyval \<Rightarrow> ustr" where
  "env_line r key v = key @ [0x3D] @ py_str r v @ [0x0A]"

text \<open>The text an open file holds so far.\<close>

definition written :: "ustr option \<Rightarrow> ustr" where
  "written c = (case c of None \<Rightarrow> [] | Some t \<Rightarrow> t)"

text \<open>
  The body of the \<^verbatim>\<open>for\<close> loop, from the \<open>i\<close>-th write on. A write encodes its text first,
  and raises \<open>UnicodeEncodeError\<close>, with nothing written, when the encoding lacks one of the
  code points; otherwise the file system decides.
\<close>

fun write_items :: "env \<Rightarrow> nat \<Rightarrow> (ustr \<times> pyval) list \<Rightarrow> world \<Rightarrow> (error + unit) \<times> world" where
  "write_items e i [] w = (Inr (), w)"
| "write_items e i ((key, v) # kvs) w =
     (let line = env_line (rt e) key v;
          w1 = did (WriteFile line) w
      in if \<not> list_all (encodable (rt e)) line then (Inl UnicodeEncodeError, w1)
         else
           (case write_error e i line of
              Some err \<Rightarrow> (Inl err, w1)
            | None \<Rightarrow>
                write_items e (Suc i) kvs (w1\<lparr>dotenv := Some (written (dotenv w1) @ line)\<rparr>)))"

text \<open>
  Leaving the \<^verbatim>\<open>with\<close> block closes the file, however the block ended. An error raised
  by closing takes the place of what the block ended with.
\<close>

definition close_file :: "env \<Rightarrow> error + unit \<Rightarrow> world \<Rightarrow> (error + unit) \<times> world" where
  "close_file e res w =
     (case close_error e of
        Some err \<Rightarrow> (Inl err, did CloseFile w)
      | None \<Rightarrow> (res, did CloseFile w))"

definition savessm :: "env \<Rightarrow> ustr \<Rightarrow> world \<Rightarrow> (error + unit) \<times> world" where
  "savessm e param_name w0 =
     (let w1 = did NewSession w0 in
      case session_error e of
        Some err \<Rightarrow> (Inl err, w1)
      | None \<Rightarrow>
     (let w2 = did (NewClient (asc ''ssm'')) w1 in
      case client_error e of
        Some err \<Rightarrow> (Inl err, w2)
      | None \<Rightarrow>
     (let w3 = did (GetParameter param_name) w2 in
      case get_parameter e param_name of
        Inl err \<Rightarrow> (Inl err, w3)
      | Inr response \<Rightarrow>
     (case response (asc ''ParameterValue'') of
        None \<Rightarrow> (Inl (KeyError (asc ''ParameterValue'')), w3)
      | Some parameter_value \<Rightarrow>
     (case json_loads (rt e) parameter_value of
        Inl err \<Rightarrow> (Inl err, w3)
      | Inr vars \<Rightarrow>
     (let w4 = did (OpenFile (asc ''.env'') (asc ''w'')) w3 in
      case open_error e of
        Some err \<Rightarrow> (Inl err, w4)
      | None \<Rightarrow>
     (let w5 = w4\<lparr>dotenv := Some []\<rparr> in
      case items vars of
        Inl err \<Rightarrow> close_file e (Inl err) w5
      | Inr kvs \<Rightarrow>
     (case write_items e 0 kvs w5 of
        (res, w6) \<Rightarrow> close_file e res w6))))))))"

section \<open>The command line\<close>

text \<open>
  \<^verbatim>\<open>
  if __name__ == "__main__":
      typer.run(savessm)
  \<close>
  \<^verbatim>\<open>typer.run\<close> makes a command of the function: its one parameter without a default
  is a required positional argument, shown as \<^verbatim>\<open>PARAM_NAME\<close>, and the only option is
  \<^verbatim>\<open>--help\<close>. The library reads the arguments from left to right: \<^verbatim>\<open>--\<close> ends the options, a
  longer word that starts with \<^verbatim>\<open>-\<close> is an option, and the first option it cannot accept
  ends the reading with a usage error. It then shows the help page if asked to, or
  calls the function with the one argument; a missing argument and surplus arguments
  are usage errors. An exception of the function passes through the library to the
  interpreter, which prints the traceback and ends the process with status 1. This is
  the library's behaviour, which is not part of the repository. The library handles
  three kinds of exception itself (its own, an interrupt or end of input, a closed pipe);
  the errors of the SDK are none of these.
\<close>

datatype usage =
    MissingArgument ustr
  | NoSuchOption ustr
  | BadOptionUsage ustr
  | UnexpectedArguments "ustr list"

datatype outcome =
    Success
  | HelpShown
  | UsageError usage
  | Uncaught error

fun exit_code :: "outcome \<Rightarrow> nat" where
  "exit_code Success = 0"
| "exit_code HelpShown = 0"
| "exit_code (UsageError u) = 2"
| "exit_code (Uncaught err) = 1"

definition is_option :: "ustr \<Rightarrow> bool" where
  "is_option a \<longleftrightarrow> (case a of c # _ # _ \<Rightarrow> c = 0x2D | _ \<Rightarrow> False)"

text \<open>
  One option word. Its name is the part before the first \<^verbatim>\<open>=\<close>. The name \<^verbatim>\<open>--help\<close> sets the
  flag (the result \<open>None\<close>), but takes no value; another name with two dashes is not known;
  a word with one dash is read as a bundle of one-letter options, and its first letter
  is not known.
\<close>

definition process_opts :: "ustr \<Rightarrow> usage option" where
  "process_opts arg =
     (let long_opt = takeWhile (\<lambda>c. c \<noteq> 0x3D) arg in
      if long_opt = asc ''--help''
      then (if 0x3D \<in> set arg then Some (BadOptionUsage long_opt) else None)
      else if take 2 arg = asc ''--'' then Some (NoSuchOption long_opt)
      else Some (NoSuchOption (take 2 arg)))"

text \<open>
  The first pass over the arguments: whether help was asked for, and the positional
  arguments in order; or the first usage error.
\<close>

fun parse_args :: "ustr list \<Rightarrow> usage + bool \<times> ustr list" where
  "parse_args [] = Inr (False, [])"
| "parse_args (a # as) =
     (if a = asc ''--'' then Inr (False, as)
      else if is_option a then
        (case process_opts a of
           Some bad \<Rightarrow> Inl bad
         | None \<Rightarrow>
             (case parse_args as of Inl bad \<Rightarrow> Inl bad | Inr (h, ps) \<Rightarrow> Inr (True, ps)))
      else (case parse_args as of Inl bad \<Rightarrow> Inl bad | Inr (h, ps) \<Rightarrow> Inr (h, a # ps)))"

definition typer_run ::
  "(ustr \<Rightarrow> world \<Rightarrow> (error + unit) \<times> world) \<Rightarrow> ustr list \<Rightarrow> world \<Rightarrow> outcome \<times> world" where
  "typer_run f argv w =
     (case parse_args argv of
        Inl bad \<Rightarrow> (UsageError bad, w)
      | Inr (help, ps) \<Rightarrow>
          if help then (HelpShown, w)
          else
            (case ps of
               [] \<Rightarrow> (UsageError (MissingArgument (asc ''PARAM_NAME'')), w)
             | [p] \<Rightarrow>
                 (case f p w of
                    (Inl err, w') \<Rightarrow> (Uncaught err, w')
                  | (Inr u, w') \<Rightarrow> (Success, w'))
             | p # q # qs \<Rightarrow> (UsageError (UnexpectedArguments (q # qs)), w)))"

definition main :: "env \<Rightarrow> ustr list \<Rightarrow> world \<Rightarrow> outcome \<times> world" where
  "main e argv w = typer_run (savessm e) argv w"

text \<open>
  The positional arguments of a command line, and whether it asks for the help page
  (with the option \<^verbatim>\<open>--help\<close>, before any \<^verbatim>\<open>--\<close>).
\<close>

fun positional_args :: "ustr list \<Rightarrow> ustr list" where
  "positional_args [] = []"
| "positional_args (a # as) =
     (if a = asc ''--'' then as
      else if is_option a then positional_args as
      else a # positional_args as)"

fun asks_help :: "ustr list \<Rightarrow> bool" where
  "asks_help [] = False"
| "asks_help (a # as) =
     (if a = asc ''--'' then False
      else if is_option a then a = asc ''--help'' \<or> asks_help as
      else asks_help as)"

section \<open>Examples of surroundings\<close>

text \<open>
  An interpreter with the default limits and UTF-8 files, to run examples in. Its two
  tables (the text of a float, the printable code points from 128 on) are stand-ins; no
  example below prints a float or such a code point.
\<close>

definition sample_runtime :: runtime where
  "sample_runtime =
     \<lparr>float_repr = (\<lambda>lexeme. lexeme), isprintable = (\<lambda>c. False),
      int_max_str_digits = 4300, recursion_limit = 1000,
      encodable = (\<lambda>c. \<not> (0xD800 \<le> c \<and> c \<le> 0xDFFF))\<rparr>"

text \<open>
  Surroundings in which everything works and the store holds, under every name, a
  parameter of type \<^verbatim>\<open>String\<close> with the given value; surroundings in which the store answers
  every request with the given error; a directory whose \<^verbatim>\<open>.env\<close> holds the line \<^verbatim>\<open>OLD=1\<close>;
  and a directory without the file.
\<close>

definition serving :: "ustr \<Rightarrow> env" where
  "serving v =
     \<lparr>rt = sample_runtime, session_error = None, client_error = None,
      store = (\<lambda>name. Inr \<lparr>par_name = name, par_type = asc ''String'', par_value = v,
                            par_version = 1,
                            par_arn = asc ''arn:aws:ssm:eu-west-1:111122223333:parameter'' @ name,
                            par_datatype = asc ''text''\<rparr>),
      metadata = PDict [(asc ''HTTPStatusCode'', PInt 200), (asc ''RetryAttempts'', PInt 0)],
      open_error = None, write_error = (\<lambda>i t. None), close_error = None\<rparr>"

definition refusing :: "error \<Rightarrow> env" where
  "refusing err =
     \<lparr>rt = sample_runtime, session_error = None, client_error = None,
      store = (\<lambda>name. Inl err),
      metadata = PDict [],
      open_error = None, write_error = (\<lambda>i t. None), close_error = None\<rparr>"

definition existing :: world where
  "existing = \<lparr>dotenv = Some (asc ''OLD=1'' @ [0x0A]), calls = []\<rparr>"

definition fresh :: world where
  "fresh = \<lparr>dotenv = None, calls = []\<rparr>"

section \<open>What every run does\<close>

text \<open>
  A run makes the session, the client and the request, in this order, and ends at the first
  of them that fails. When the store answers, the program asks the response for the key
  \<^verbatim>\<open>ParameterValue\<close>, which a response never has: the run ends there with a \<open>KeyError\<close>, and
  the lines below the lookup (decoding, opening the file, writing) are not reached.
\<close>

lemma no_parameter_value: "sdk_response par meta (asc ''ParameterValue'') = None"
  by (simp add: sdk_response_def asc_def)

lemma savessm_session_fails:
  assumes "session_error e = Some err"
  shows "savessm e p w = (Inl err, w\<lparr>calls := calls w @ [NewSession]\<rparr>)"
  using assms by (simp add: savessm_def Let_def did_def)

lemma savessm_client_fails:
  assumes "session_error e = None" and "client_error e = Some err"
  shows "savessm e p w = (Inl err, w\<lparr>calls := calls w @ [NewSession, NewClient (asc ''ssm'')]\<rparr>)"
  using assms by (simp add: savessm_def Let_def did_def)

lemma savessm_request_fails:
  assumes "session_error e = None" and "client_error e = None"
    and "get_parameter e p = Inl err"
  shows "savessm e p w =
     (Inl err, w\<lparr>calls := calls w @ [NewSession, NewClient (asc ''ssm''), GetParameter p]\<rparr>)"
  using assms by (simp add: savessm_def Let_def did_def)

lemma savessm_answered:
  assumes "session_error e = None" and "client_error e = None"
    and "store e p = Inr par"
  shows "savessm e p w =
     (Inl (KeyError (asc ''ParameterValue'')),
      w\<lparr>calls := calls w @ [NewSession, NewClient (asc ''ssm''), GetParameter p]\<rparr>)"
proof -
  have g: "get_parameter e p = Inr (sdk_response par (metadata e))"
    by (simp add: get_parameter_def assms(3))
  show ?thesis
    by (simp add: savessm_def Let_def did_def assms(1,2) g no_parameter_value)
qed

lemma serving_session: "session_error (serving v) = None"
  by (simp add: serving_def)

lemma serving_client: "client_error (serving v) = None"
  by (simp add: serving_def)

lemma serving_store:
  "\<exists>par. store (serving v) p = Inr par \<and> par_value par = v \<and> par_name par = p"
  by (simp add: serving_def)

lemma savessm_serving:
  "savessm (serving v) p w =
     (Inl (KeyError (asc ''ParameterValue'')),
      w\<lparr>calls := calls w @ [NewSession, NewClient (asc ''ssm''), GetParameter p]\<rparr>)"
proof -
  obtain par where "store (serving v) p = Inr par"
    using serving_store by blast
  then show ?thesis
    using savessm_answered [OF serving_session serving_client] by blast
qed

lemma main_invokes:
  assumes "parse_args argv = Inr (False, [p])"
  shows "main e argv w =
     (case savessm e p w of
        (Inl err, w') \<Rightarrow> (Uncaught err, w')
      | (Inr u, w') \<Rightarrow> (Success, w'))"
  using assms by (simp add: main_def typer_run_def)

lemma process_opts_help:
  assumes "process_opts a = None"
  shows "a = asc ''--help''"
proof -
  have l: "takeWhile (\<lambda>c. c \<noteq> 0x3D) a = asc ''--help''"
    using assms by (simp add: process_opts_def Let_def split: if_splits)
  have "0x3D \<notin> set a"
    using assms l by (simp add: process_opts_def Let_def split: if_splits)
  then have "takeWhile (\<lambda>c. c \<noteq> 0x3D) a = a"
    by (auto simp: takeWhile_eq_all_conv)
  with l show ?thesis by simp
qed

lemma parse_args_result:
  "(\<exists>bad. parse_args argv = Inl bad) \<or>
   parse_args argv = Inr (asks_help argv, positional_args argv)"
proof (induction argv)
  case Nil
  then show ?case by simp
next
  case (Cons a as)
  show ?case
  proof (cases "parse_args (a # as)")
    case (Inl bad)
    then show ?thesis by blast
  next
    case (Inr r)
    show ?thesis
    proof (cases "a = asc ''--''")
      case True
      then show ?thesis by simp
    next
      case False
      note dd = this
      from Inr dd obtain h ps where rest: "parse_args as = Inr (h, ps)"
        by (cases "parse_args as") (auto split: if_splits option.splits)
      with Cons.IH have eq: "h = asks_help as" "ps = positional_args as"
        by auto
      show ?thesis
      proof (cases "is_option a")
        case True
        with Inr dd have none: "process_opts a = None"
          by (cases "process_opts a") auto
        then have "a = asc ''--help''"
          by (rule process_opts_help)
        with True dd rest eq none show ?thesis
          by simp
      next
        case False
        with dd rest eq show ?thesis by simp
      qed
    qed
  qed
qed

section \<open>The claims\<close>

text \<open>
  C1. The program does not do what the claim says. With the store holding
  \<^verbatim>\<open>{"A":"1","B":"2"}\<close> and nothing failing around the program, the run ends with the
  \<open>KeyError\<close> of the lookup \<^verbatim>\<open>['ParameterValue']\<close>: the value is in the response, under
  \<^verbatim>\<open>Parameter\<close> and \<^verbatim>\<open>Value\<close>, and is never read; \<^verbatim>\<open>.env\<close> is as it was, and no call is
  made to the file system.
\<close>

theorem two_keys_run:
  \<open>(\<exists>par. store (serving (asc ''{"A":"1","B":"2"}'')) p = Inr par \<and>
          par_value par = asc ''{"A":"1","B":"2"}'') \<and>
    fst (savessm (serving (asc ''{"A":"1","B":"2"}'')) p w) = Inl (KeyError (asc ''ParameterValue'')) \<and>
    dotenv (snd (savessm (serving (asc ''{"A":"1","B":"2"}'')) p w)) = dotenv w \<and>
    calls (snd (savessm (serving (asc ''{"A":"1","B":"2"}'')) p w)) =
      calls w @ [NewSession, NewClient (asc ''ssm''), GetParameter p]\<close>
  using serving_store [of \<open>asc ''{"A":"1","B":"2"}''\<close> p]
  by (auto simp: savessm_serving)

text \<open>
  C2. With the store holding \<^verbatim>\<open>[1,2]\<close>, valid JSON that is not an object, the run fails, and
  \<^verbatim>\<open>.env\<close> keeps the line it held; but the error is the \<open>KeyError\<close> of the lookup, the same
  as for every other value, raised before the value is looked at.
\<close>

theorem non_object_run:
  "(\<exists>par. store (serving (asc ''[1,2]'')) p = Inr par \<and> par_value par = asc ''[1,2]'') \<and>
   fst (savessm (serving (asc ''[1,2]'')) p existing) = Inl (KeyError (asc ''ParameterValue'')) \<and>
   dotenv (snd (savessm (serving (asc ''[1,2]'')) p existing)) = Some (asc ''OLD=1'' @ [0x0A]) \<and>
   calls (snd (savessm (serving (asc ''[1,2]'')) p existing)) =
     [NewSession, NewClient (asc ''ssm''), GetParameter p]"
  using serving_store [of "asc ''[1,2]''" p]
  by (auto simp: savessm_serving existing_def)

text \<open>
  C3. Whatever value the store answers with, and so for every value that is not valid
  JSON, the export fails before any file operation: the run ends with an error, \<^verbatim>\<open>.env\<close> is
  as it was, and the only calls made are the three to the SDK; the file is neither opened
  nor written nor closed.
\<close>

theorem savessm_fails_before_file:
  assumes "session_error e = None" and "client_error e = None"
    and "store e p = Inr par" and "par_value par = s"
  shows "fst (savessm e p w) = Inl (KeyError (asc ''ParameterValue'')) \<and>
         dotenv (snd (savessm e p w)) = dotenv w \<and>
         calls (snd (savessm e p w)) =
           calls w @ [NewSession, NewClient (asc ''ssm''), GetParameter p]"
  by (simp add: savessm_answered [OF assms(1-3)])

theorem savessm_fails_before_file_witness:
  "session_error (serving (asc ''not json'')) = None \<and>
   client_error (serving (asc ''not json'')) = None \<and>
   (\<exists>par. store (serving (asc ''not json'')) (asc ''/app/dev'') = Inr par \<and>
          par_value par = asc ''not json'') \<and>
   fst (savessm (serving (asc ''not json'')) (asc ''/app/dev'') existing)
     = Inl (KeyError (asc ''ParameterValue'')) \<and>
   dotenv (snd (savessm (serving (asc ''not json'')) (asc ''/app/dev'') existing))
     = dotenv existing \<and>
   calls (snd (savessm (serving (asc ''not json'')) (asc ''/app/dev'') existing))
     = calls existing @ [NewSession, NewClient (asc ''ssm''), GetParameter (asc ''/app/dev'')]"
proof -
  obtain par where par: "store (serving (asc ''not json'')) (asc ''/app/dev'') = Inr par"
    "par_value par = asc ''not json''"
    using serving_store by blast
  from savessm_fails_before_file [OF serving_session serving_client par, of existing]
    serving_session [of "asc ''not json''"] serving_client [of "asc ''not json''"] par
  show ?thesis by auto
qed



text \<open>
  C6. When the store refuses the request (the parameter does not exist, or access to it is
  denied), the export fails with exactly the error the store reported, error code included
  (\<^verbatim>\<open>ParameterNotFound\<close>, \<^verbatim>\<open>AccessDeniedException\<close>), and not with another one; the file is
  not touched.
\<close>

theorem savessm_store_error:
  assumes "session_error e = None" and "client_error e = None"
    and "get_parameter e p = Inl (ClientError code)"
  shows "fst (savessm e p w) = Inl (ClientError code) \<and>
         dotenv (snd (savessm e p w)) = dotenv w \<and>
         calls (snd (savessm e p w)) =
           calls w @ [NewSession, NewClient (asc ''ssm''), GetParameter p]"
  by (simp add: savessm_request_fails [OF assms])

theorem savessm_store_error_witness:
  "session_error (refusing (ClientError (asc ''ParameterNotFound''))) = None \<and>
   client_error (refusing (ClientError (asc ''ParameterNotFound''))) = None \<and>
   get_parameter (refusing (ClientError (asc ''ParameterNotFound''))) (asc ''/app/none'')
     = Inl (ClientError (asc ''ParameterNotFound'')) \<and>
   fst (savessm (refusing (ClientError (asc ''ParameterNotFound''))) (asc ''/app/none'') existing)
     = Inl (ClientError (asc ''ParameterNotFound'')) \<and>
   fst (savessm (refusing (ClientError (asc ''AccessDeniedException''))) (asc ''/app/none'') existing)
     = Inl (ClientError (asc ''AccessDeniedException'')) \<and>
   dotenv (snd (savessm (refusing (ClientError (asc ''ParameterNotFound''))) (asc ''/app/none'')
     existing)) = dotenv existing"
  using savessm_store_error [of "refusing (ClientError (asc ''ParameterNotFound''))"
          "asc ''/app/none''" "asc ''ParameterNotFound''" existing]
        savessm_store_error [of "refusing (ClientError (asc ''AccessDeniedException''))"
          "asc ''/app/none''" "asc ''AccessDeniedException''" existing]
  by (simp add: refusing_def get_parameter_def)

text \<open>
  C9. With the store holding the empty object \<^verbatim>\<open>{}\<close> and no \<^verbatim>\<open>.env\<close> in the directory, the
  run ends with the \<open>KeyError\<close> of the lookup; the file is not created.
\<close>

theorem empty_object_run:
  "(\<exists>par. store (serving (asc ''{}'')) p = Inr par \<and> par_value par = asc ''{}'') \<and>
   fst (savessm (serving (asc ''{}'')) p fresh) = Inl (KeyError (asc ''ParameterValue'')) \<and>
   dotenv (snd (savessm (serving (asc ''{}'')) p fresh)) = None \<and>
   calls (snd (savessm (serving (asc ''{}'')) p fresh)) =
     [NewSession, NewClient (asc ''ssm''), GetParameter p]"
  using serving_store [of "asc ''{}''" p]
  by (auto simp: savessm_serving fresh_def)

text \<open>
  C10. With the store holding \<^verbatim>\<open>{"a":1,"b":2,"a":3}\<close>, a JSON text with a repeated key, the
  run ends with the \<open>KeyError\<close> of the lookup before the text is decoded; no file is
  written.
\<close>

theorem repeated_key_run:
  \<open>(\<exists>par. store (serving (asc ''{"a":1,"b":2,"a":3}'')) p = Inr par \<and>
          par_value par = asc ''{"a":1,"b":2,"a":3}'') \<and>
    fst (savessm (serving (asc ''{"a":1,"b":2,"a":3}'')) p fresh)
      = Inl (KeyError (asc ''ParameterValue'')) \<and>
    dotenv (snd (savessm (serving (asc ''{"a":1,"b":2,"a":3}'')) p fresh)) = None \<and>
    calls (snd (savessm (serving (asc ''{"a":1,"b":2,"a":3}'')) p fresh)) =
      [NewSession, NewClient (asc ''ssm''), GetParameter p]\<close>
  using serving_store [of \<open>asc ''{"a":1,"b":2,"a":3}''\<close> p]
  by (auto simp: savessm_serving fresh_def)

text \<open>
  C7. For every command line on which the function is called, the run ends with an error
  that nothing has caught or changed, and this is all a run can do. If the session cannot
  be made, the process ends with that error after the one attempt; if the client cannot
  be made, with that error, after one attempt at each of the two; if the request fails,
  with that error, after one request; and if the store answers, with the \<open>KeyError\<close> of
  the lookup, again after one request. In no case is a call repeated, a success reported
  or \<^verbatim>\<open>.env\<close> touched. The steps below the lookup (decoding, opening and writing the file) are
  reached by no run, so that no failure of theirs is there to be propagated.
\<close>

theorem failures_propagate:
  assumes "parse_args argv = Inr (False, [p])"
  shows "main e argv w =
     (case session_error e of
        Some err \<Rightarrow> (Uncaught err, w\<lparr>calls := calls w @ [NewSession]\<rparr>)
      | None \<Rightarrow>
     (case client_error e of
        Some err \<Rightarrow>
          (Uncaught err, w\<lparr>calls := calls w @ [NewSession, NewClient (asc ''ssm'')]\<rparr>)
      | None \<Rightarrow>
     (case store e p of
        Inl err \<Rightarrow>
          (Uncaught err,
           w\<lparr>calls := calls w @ [NewSession, NewClient (asc ''ssm''), GetParameter p]\<rparr>)
      | Inr par \<Rightarrow>
          (Uncaught (KeyError (asc ''ParameterValue'')),
           w\<lparr>calls := calls w @ [NewSession, NewClient (asc ''ssm''), GetParameter p]\<rparr>))))"
proof (cases "session_error e")
  case (Some err)
  then show ?thesis
    by (simp add: main_invokes [OF assms] savessm_session_fails)
next
  case None
  note s = this
  show ?thesis
  proof (cases "client_error e")
    case (Some err)
    with s show ?thesis
      by (simp add: main_invokes [OF assms] savessm_client_fails)
  next
    case None
    note c = this
    show ?thesis
    proof (cases "store e p")
      case (Inl err)
      then have "get_parameter e p = Inl err"
        by (simp add: get_parameter_def)
      with s c Inl show ?thesis
        by (simp add: main_invokes [OF assms] savessm_request_fails)
    next
      case (Inr par)
      with s c show ?thesis
        by (simp add: main_invokes [OF assms] savessm_answered)
    qed
  qed
qed

theorem failures_propagate_witness:
  \<open>parse_args [asc ''/app/dev''] = Inr (False, [asc ''/app/dev'']) \<and>
    main ((serving (asc ''{"A":"1"}''))\<lparr>session_error := Some (BotoCoreError (asc ''ProfileNotFound''))\<rparr>)
        [asc ''/app/dev''] existing =
      (Uncaught (BotoCoreError (asc ''ProfileNotFound'')),
       existing\<lparr>calls := [NewSession]\<rparr>) \<and>
    main ((serving (asc ''{"A":"1"}''))\<lparr>client_error := Some (BotoCoreError (asc ''NoRegionError''))\<rparr>)
        [asc ''/app/dev''] existing =
      (Uncaught (BotoCoreError (asc ''NoRegionError'')),
       existing\<lparr>calls := [NewSession, NewClient (asc ''ssm'')]\<rparr>) \<and>
    main (refusing (BotoCoreError (asc ''NoCredentialsError''))) [asc ''/app/dev''] existing =
      (Uncaught (BotoCoreError (asc ''NoCredentialsError'')),
       existing\<lparr>calls := [NewSession, NewClient (asc ''ssm''), GetParameter (asc ''/app/dev'')]\<rparr>) \<and>
    main (serving (asc ''{"A":"1"}'')) [asc ''/app/dev''] existing =
      (Uncaught (KeyError (asc ''ParameterValue'')),
       existing\<lparr>calls := [NewSession, NewClient (asc ''ssm''), GetParameter (asc ''/app/dev'')]\<rparr>)\<close>
proof -
  have a: "parse_args [asc ''/app/dev''] = Inr (False, [asc ''/app/dev''])"
    by (simp add: is_option_def asc_def)
  show ?thesis
    using failures_propagate [OF a,
        of \<open>(serving (asc ''{"A":"1"}''))\<lparr>session_error := Some (BotoCoreError (asc ''ProfileNotFound''))\<rparr>\<close>
           existing]
      failures_propagate [OF a,
        of \<open>(serving (asc ''{"A":"1"}''))\<lparr>client_error := Some (BotoCoreError (asc ''NoRegionError''))\<rparr>\<close>
           existing]
      failures_propagate [OF a, of \<open>refusing (BotoCoreError (asc ''NoCredentialsError''))\<close> existing]
      failures_propagate [OF a, of \<open>serving (asc ''{"A":"1"}'')\<close> existing]
    by (simp add: serving_def refusing_def existing_def is_option_def asc_def)
qed

text \<open>
  C8. The claim fails for the command line \<^verbatim>\<open>--help\<close>, which has no positional argument:
  the library shows the help page and the process ends with status 0, not with a usage
  error. No call is made, as the claim says.
\<close>

theorem main_help_counterexample:
  \<open>positional_args [asc ''--help''] = [] \<and>
    main (serving (asc ''{"A":"1"}'')) [asc ''--help''] existing = (HelpShown, existing) \<and>
    exit_code (fst (main (serving (asc ''{"A":"1"}'')) [asc ''--help''] existing)) = 0\<close>
  by (simp add: main_def typer_run_def is_option_def process_opts_def asc_def)

text \<open>
  C8, as it holds. For every command line without a positional argument the library ends
  the process itself, and nothing is called and nothing changed: with a usage error and
  status 2, or, only when the command line asks for it with \<^verbatim>\<open>--help\<close>, with the help page
  and status 0. So a command line that has neither the argument nor \<^verbatim>\<open>--help\<close> ends
  with a usage error and status 2.
\<close>

theorem main_without_argument:
  assumes "positional_args argv = []"
  shows "snd (main e argv w) = w \<and>
     ((\<exists>u. fst (main e argv w) = UsageError u) \<and> exit_code (fst (main e argv w)) = 2 \<or>
      asks_help argv \<and> fst (main e argv w) = HelpShown \<and>
        exit_code (fst (main e argv w)) = 0)"
proof -
  consider (bad) bad where "parse_args argv = Inl bad"
    | (good) "parse_args argv = Inr (asks_help argv, positional_args argv)"
    using parse_args_result [of argv] by blast
  then show ?thesis
  proof cases
    case bad
    then show ?thesis
      by (simp add: main_def typer_run_def)
  next
    case good
    with assms show ?thesis
      by (simp add: main_def typer_run_def)
  qed
qed

theorem main_without_argument_witness:
  "positional_args [] = [] \<and>
   snd (main (serving (asc ''{}'')) [] existing) = existing \<and>
   fst (main (serving (asc ''{}'')) [] existing) = UsageError (MissingArgument (asc ''PARAM_NAME'')) \<and>
   exit_code (fst (main (serving (asc ''{}'')) [] existing)) = 2 \<and>
   positional_args [asc ''-v''] = [] \<and>
   snd (main (serving (asc ''{}'')) [asc ''-v''] existing) = existing \<and>
   fst (main (serving (asc ''{}'')) [asc ''-v''] existing) = UsageError (NoSuchOption (asc ''-v'')) \<and>
   exit_code (fst (main (serving (asc ''{}'')) [asc ''-v''] existing)) = 2"
  using main_without_argument [of "[]" "serving (asc ''{}'')" existing]
    main_without_argument [of "[asc ''-v'']" "serving (asc ''{}'')" existing]
  by (simp add: main_def typer_run_def is_option_def process_opts_def asc_def)

end
